theory Spec2Isabelle
  imports Main "HOL-Library.Word"
begin

section \<open>The handlers package of urlshort (handlers/handler.go)\<close>

text \<open>
  The package builds HTTP handlers that redirect a request path to a stored URL and
  hand every other request to a fallback handler. Its own code is a handful of
  branches around calls into net/http, fmt, log, gorm, yaml.v2 and encoding/json.
  Those libraries are not part of the package: a call into one of them is modelled as
  a value of the datatype \<open>call\<close> (the handler's behaviour is the list of calls it
  makes, in order, with their arguments), and what a decoder or a database query
  returns is a parameter of the model.
\<close>

subsection \<open>Data\<close>

text \<open>Go's \<open>[]byte\<close>. A Go \<open>string\<close> is a \<open>string\<close> (a list of 8-bit characters).\<close>

type_synonym bytes = "8 word list"

text \<open>
  Go's \<open>error\<close> values as far as the package tells them apart: it compares an error
  with \<open>gorm.ErrRecordNotFound\<close> by identity and prints any error with \<open>%s\<close>,
  that is through its \<open>Error()\<close> method. \<open>nil\<close> is \<open>None\<close> of \<open>error option\<close>.
\<close>

datatype error = ErrRecordNotFound | OtherError string

fun Error :: "error \<Rightarrow> string" where
  "Error ErrRecordNotFound = ''record not found''"
| "Error (OtherError msg) = msg"

text \<open>The fields of \<open>*http.Request\<close> that matter here; \<open>URL_Path\<close> is \<open>r.URL.Path\<close>.\<close>

record Request =
  Method :: string
  URL_Path :: string
  URL_RawQuery :: string

text \<open>The struct \<open>urlmap\<close> declared inside \<open>DBHandler\<close>.\<close>

record urlmap =
  Shortpath :: string
  URL :: string

definition StatusOK :: nat where
  "StatusOK = 200"

definition StatusMovedPermanently :: nat where
  "StatusMovedPermanently = 301"

definition StatusFound :: nat where
  "StatusFound = 302"

text \<open>
  The calls a handler body makes. \<open>'w\<close> is the \<open>http.ResponseWriter\<close> the handler
  was given and \<open>'h\<close> the \<open>http.Handler\<close> it holds as fallback; both are opaque.
  \<^item> \<open>HttpRedirect w r url code\<close> is \<open>http.Redirect(w, r, url, code)\<close>;
  \<^item> \<open>ServeHTTP h w r\<close> is \<open>h.ServeHTTP(w, r)\<close>;
  \<^item> \<open>Fprintf w text\<close> is \<open>fmt.Fprintf(w, ...)\<close> with \<open>text\<close> the formatted output.
\<close>

datatype ('w, 'h) call =
    HttpRedirect 'w Request string nat
  | ServeHTTP 'h 'w Request
  | Fprintf 'w string

type_synonym ('w, 'h) HandlerFunc = "'w \<Rightarrow> Request \<Rightarrow> ('w, 'h) call list"

text \<open>A Go function result \<open>(http.HandlerFunc, error)\<close>; \<open>nil\<close> is \<open>None\<close> on either side.\<close>

type_synonym ('w, 'h) built = "('w, 'h) HandlerFunc option \<times> error option"

text \<open>\<open>log.Println(args...)\<close>, with each operand as \<open>Println\<close> prints it.\<close>

datatype log_call = log_Println "string list"

text \<open>
  Reading a Go \<open>map[string]string\<close>: \<open>m[k]\<close> is the zero value \<open>""\<close> when \<open>k\<close> is
  not a key (also when \<open>m\<close> is the nil map, which is \<open>Map.empty\<close> here).
\<close>

definition map_index :: "(string \<rightharpoonup> string) \<Rightarrow> string \<Rightarrow> string" where
  "map_index m k = (case m k of None \<Rightarrow> [] | Some v \<Rightarrow> v)"

subsection \<open>MapHandler\<close>

definition MapHandler :: "(string \<rightharpoonup> string) \<Rightarrow> 'h \<Rightarrow> ('w, 'h) HandlerFunc" where
  "MapHandler pathsToUrls fallback = (\<lambda>w r.
     case pathsToUrls (URL_Path r) of
       Some path \<Rightarrow> [HttpRedirect w r path StatusFound]
     | None \<Rightarrow> [ServeHTTP fallback w r])"

subsection \<open>The YAML and JSON adapters\<close>

text \<open>
  \<open>yamlV2.Unmarshal(yaml, &dst)\<close> and \<open>json.Unmarshal(jsonData, &dst)\<close> are library
  calls: each is a parameter that takes the input and the destination as it was and
  returns the destination as the call left it together with the error.
\<close>

type_synonym entry = "string \<rightharpoonup> string"

type_synonym yaml_Unmarshal = "bytes \<Rightarrow> entry list \<Rightarrow> entry list \<times> error option"

type_synonym json_Unmarshal =
  "bytes \<Rightarrow> (string \<rightharpoonup> string) \<Rightarrow> (string \<rightharpoonup> string) \<times> error option"

definition parseYAML :: "yaml_Unmarshal \<Rightarrow> bytes \<Rightarrow> entry list \<times> error option" where
  "parseYAML yamlV2_Unmarshal yaml =
     (case yamlV2_Unmarshal yaml [] of
        (dst, Some err) \<Rightarrow> ([], Some err)
      | (dst, None) \<Rightarrow> (dst, None))"

definition parseJSON :: "json_Unmarshal \<Rightarrow> bytes \<Rightarrow> (string \<rightharpoonup> string) \<times> error option" where
  "parseJSON json_Unmarshal jsonData =
     (case json_Unmarshal jsonData Map.empty of
        (dst, Some err) \<Rightarrow> (Map.empty, Some err)
      | (dst, None) \<Rightarrow> (dst, None))"

text \<open>The \<open>for ... range parsedYaml\<close> loop of \<open>buildMap\<close>, with \<open>mergedMap\<close> as its state.\<close>

fun buildMap_loop :: "entry list \<Rightarrow> (string \<rightharpoonup> string) \<Rightarrow> (string \<rightharpoonup> string)" where
  "buildMap_loop [] mergedMap = mergedMap"
| "buildMap_loop (entry # rest) mergedMap =
     (let key = map_index entry ''path''
      in buildMap_loop rest (mergedMap(key \<mapsto> map_index entry ''url'')))"

definition buildMap :: "entry list \<Rightarrow> (string \<rightharpoonup> string)" where
  "buildMap parsedYaml = buildMap_loop parsedYaml Map.empty"

definition YAMLHandler :: "yaml_Unmarshal \<Rightarrow> bytes \<Rightarrow> 'h \<Rightarrow> ('w, 'h) built" where
  "YAMLHandler yamlV2_Unmarshal yaml fallback =
     (case parseYAML yamlV2_Unmarshal yaml of
        (parsedYaml, Some err) \<Rightarrow> (None, Some err)
      | (parsedYaml, None) \<Rightarrow>
          (let pathMap = buildMap parsedYaml
           in (Some (MapHandler pathMap fallback), None)))"

definition JSONHandler :: "json_Unmarshal \<Rightarrow> bytes \<Rightarrow> 'h \<Rightarrow> ('w, 'h) built" where
  "JSONHandler json_Unmarshal jsonData fallback =
     (case parseJSON json_Unmarshal jsonData of
        (parsedJSON, Some err) \<Rightarrow> (None, Some err)
      | (parsedJSON, None) \<Rightarrow> (Some (MapHandler parsedJSON fallback), None))"

subsection \<open>DBHandler\<close>

text \<open>
  The \<open>*gorm.DB\<close> handle, seen through the two calls the package makes on it:
  \<open>AutoMigrate_Error\<close> is \<open>db.AutoMigrate(&urlmap{}).Error\<close>, and
  \<open>Where_First db q\<close> is what \<open>db.Where(q).First(&dst)\<close> leaves in \<open>dst\<close> together
  with its \<open>.Error\<close>.
\<close>

record DB =
  AutoMigrate_Error :: "error option"
  Where_First :: "urlmap \<Rightarrow> urlmap \<times> error option"

text \<open>The closure \<open>DBHandler\<close> returns (lines 92 to 108).\<close>

definition DBHandler_func :: "DB \<Rightarrow> 'h \<Rightarrow> ('w, 'h) HandlerFunc" where
  "DBHandler_func db fallback = (\<lambda>w r.
     let urlMap = \<lparr>Shortpath = URL_Path r, URL = []\<rparr>
     in case Where_First db urlMap of
          (dst, Some err) \<Rightarrow>
            (if err = ErrRecordNotFound then [ServeHTTP fallback w r]
             else [Fprintf w (''Unexpected error: '' @ Error err)])
        | (dst, None) \<Rightarrow> [HttpRedirect w r (URL dst) StatusMovedPermanently])"

text \<open>
  \<open>DBHandler\<close> itself: what it logs while it runs, and the pair it returns.
\<close>

definition DBHandler :: "DB \<Rightarrow> 'h \<Rightarrow> log_call list \<times> ('w, 'h) built" where
  "DBHandler db fallback =
     ((case AutoMigrate_Error db of
         Some err \<Rightarrow> [log_Println [''Gorm error: '', Error err]]
       | None \<Rightarrow> []),
      (Some (DBHandler_func db fallback), None))"

subsection \<open>What the calls do to the response\<close>

text \<open>
  The response behind an \<open>http.ResponseWriter\<close>, as far as the interface's contract
  fixes it: the header map, the status code once it has been written (\<open>None\<close>
  before), and the body written so far. \<open>WriteHeader\<close> writes the status once; a
  \<open>Write\<close> that comes before any \<open>WriteHeader\<close> writes \<open>StatusOK\<close> first.
  \<open>fmt.Fprintf(w, ...)\<close> is one \<open>Write\<close> of the formatted text.
\<close>

record response =
  header :: "string \<rightharpoonup> string"
  status :: "nat option"
  body :: string

definition WriteHeader :: "nat \<Rightarrow> response \<Rightarrow> response" where
  "WriteHeader code resp = (if status resp = None then resp\<lparr>status := Some code\<rparr> else resp)"

definition Write :: "string \<Rightarrow> response \<Rightarrow> response" where
  "Write text resp =
     (let resp' = WriteHeader StatusOK resp in resp'\<lparr>body := body resp' @ text\<rparr>)"

text \<open>
  Writers are references: the store gives the response behind each. What
  \<open>http.Redirect\<close> and the fallback's \<open>ServeHTTP\<close> do to the store is not decided by
  this package, so both are parameters of \<open>exec\<close>.
\<close>

type_synonym 'w store = "'w \<Rightarrow> response"

type_synonym 'w http_Redirect = "'w \<Rightarrow> Request \<Rightarrow> string \<Rightarrow> nat \<Rightarrow> 'w store \<Rightarrow> 'w store"

type_synonym ('w, 'h) Handler_ServeHTTP = "'h \<Rightarrow> 'w \<Rightarrow> Request \<Rightarrow> 'w store \<Rightarrow> 'w store"

fun exec ::
  "'w http_Redirect \<Rightarrow> ('w, 'h) Handler_ServeHTTP \<Rightarrow> ('w, 'h) call \<Rightarrow> 'w store \<Rightarrow> 'w store"
where
  "exec redirect serve (HttpRedirect w r url code) s = redirect w r url code s"
| "exec redirect serve (ServeHTTP h w r) s = serve h w r s"
| "exec redirect serve (Fprintf w text) s = s(w := Write text (s w))"

definition run ::
  "'w http_Redirect \<Rightarrow> ('w, 'h) Handler_ServeHTTP \<Rightarrow> ('w, 'h) call list \<Rightarrow> 'w store \<Rightarrow> 'w store"
where
  "run redirect serve calls s = fold (exec redirect serve) calls s"

text \<open>Which calls answer the request with a redirect, and which hand it to a handler.\<close>

fun is_redirect :: "('w, 'h) call \<Rightarrow> bool" where
  "is_redirect (HttpRedirect w r url code) = True"
| "is_redirect (ServeHTTP h w r) = False"
| "is_redirect (Fprintf w text) = False"


text \<open>
  A handler's answer to a request is a redirect or a delegation when its one call is
  \<open>http.Redirect\<close> on the writer and request it was given, or \<open>ServeHTTP\<close> of its
  fallback on them.
\<close>

fun redirects_or_delegates :: "'h \<Rightarrow> 'w \<Rightarrow> Request \<Rightarrow> ('w, 'h) call list \<Rightarrow> bool" where
  "redirects_or_delegates F w r [HttpRedirect w' r' url code] = (w' = w \<and> r' = r)"
| "redirects_or_delegates F w r [ServeHTTP h w' r'] = (h = F \<and> w' = w \<and> r' = r)"
| "redirects_or_delegates F w r calls = False"

subsection \<open>Example inputs\<close>

text \<open>The end-to-end scenario of the specification: one mapping, two requests.\<close>

definition go_map :: "string \<rightharpoonup> string" where
  "go_map = [''/go'' \<mapsto> ''https://go.dev'']"

definition get_request :: "string \<Rightarrow> Request" where
  "get_request p = \<lparr>Method = ''GET'', URL_Path = p, URL_RawQuery = []\<rparr>"

text \<open>
  A stand-in for \<open>http.Redirect\<close> (Location header and status) and a fallback that
  answers 404 in plain text, used where a theorem is applied to concrete inputs.
\<close>

definition location_redirect :: "unit http_Redirect" where
  "location_redirect w r url code s =
     s(w := WriteHeader code ((s w)\<lparr>header := (header (s w))(''Location'' \<mapsto> url)\<rparr>))"

definition not_found_fallback :: "(unit, string) Handler_ServeHTTP" where
  "not_found_fallback h w r s = s(w := Write h (WriteHeader 404 (s w)))"

definition fresh :: "unit store" where
  "fresh = (\<lambda>w. \<lparr>header = Map.empty, status = None, body = []\<rparr>)"

text \<open>
  The decoded form of a YAML record that has both fields, \<open>{path: p, url: u}\<close>.
\<close>

definition yaml_record :: "string \<Rightarrow> string \<Rightarrow> entry" where
  "yaml_record p u = [''path'' \<mapsto> p, ''url'' \<mapsto> u]"

text \<open>
  An in-memory stand-in for a database handle: migration succeeds and a query is
  answered with the first row of the table whose shortpath is the query's, or with
  \<open>ErrRecordNotFound\<close>. And a handle on which every call fails.
\<close>

definition table_db :: "urlmap list \<Rightarrow> DB" where
  "table_db rows =
     \<lparr>AutoMigrate_Error = None,
      Where_First = (\<lambda>q.
        case find (\<lambda>row. Shortpath row = Shortpath q) rows of
          Some row \<Rightarrow> (row, None)
        | None \<Rightarrow> (\<lparr>Shortpath = [], URL = []\<rparr>, Some ErrRecordNotFound))\<rparr>"

definition broken_db :: DB where
  "broken_db =
     \<lparr>AutoMigrate_Error = Some (OtherError ''unable to open database file''),
      Where_First = (\<lambda>q. (\<lparr>Shortpath = [], URL = []\<rparr>, Some (OtherError ''connection refused'')))\<rparr>"

subsection \<open>The merge as the specification words it\<close>

text \<open>
  Section 4.2: fold the sequence into a mapping, iterating in document order and
  setting \<open>mapping[path] = url\<close> for each record.
\<close>

definition spec_fold :: "entry list \<Rightarrow> (string \<rightharpoonup> string)" where
  "spec_fold records =
     foldl (\<lambda>mapping record. mapping(map_index record ''path'' \<mapsto> map_index record ''url''))
       Map.empty records"

section \<open>Properties\<close>

subsection \<open>MapHandler\<close>

lemma MapHandler_hit:
  "M (URL_Path r) = Some u \<Longrightarrow> MapHandler M F w r = [HttpRedirect w r u StatusFound]"
  by (simp add: MapHandler_def)

lemma MapHandler_miss:
  "M (URL_Path r) = None \<Longrightarrow> MapHandler M F w r = [ServeHTTP F w r]"
  by (simp add: MapHandler_def)

text \<open>
  C1. The handler built by \<open>MapHandler M F\<close> answers with \<open>http.Redirect\<close> to
  \<open>M[p]\<close> with status 302 when the request path \<open>p\<close> is a key of \<open>M\<close>, and it
  redirects only then; when \<open>p\<close> is no key, its one and only call is
  \<open>F.ServeHTTP(w, r)\<close> with the writer and the request it was given, so the response
  is whatever \<open>F\<close> makes of the untouched writer.
\<close>

theorem MapHandler_redirects_iff_key:
  "(M (URL_Path r) = Some u \<longrightarrow> MapHandler M F w r = [HttpRedirect w r u 302])
   \<and> ((\<exists>c \<in> set (MapHandler M F w r). is_redirect c) \<longleftrightarrow> URL_Path r \<in> dom M)
   \<and> (URL_Path r \<notin> dom M \<longrightarrow>
        MapHandler M F w r = [ServeHTTP F w r]
        \<and> run redirect serve (MapHandler M F w r) s = serve F w r s)"
proof (cases "M (URL_Path r)")
  case None
  then have "MapHandler M F w r = [ServeHTTP F w r]"
    by (rule MapHandler_miss)
  with None show ?thesis
    by (simp add: run_def dom_def)
next
  case (Some v)
  then have "MapHandler M F w r = [HttpRedirect w r v StatusFound]"
    by (rule MapHandler_hit)
  with Some show ?thesis
    by (simp add: StatusFound_def dom_def)
qed

theorem MapHandler_redirects_iff_key_witness:
  "MapHandler go_map ''404 page not found'' () (get_request ''/go'')
     = [HttpRedirect () (get_request ''/go'') ''https://go.dev'' 302]
   \<and> MapHandler go_map ''404 page not found'' () (get_request ''/rust'')
     = [ServeHTTP ''404 page not found'' () (get_request ''/rust'')]
   \<and> run location_redirect not_found_fallback
        (MapHandler go_map ''404 page not found'' () (get_request ''/rust'')) fresh ()
     = \<lparr>header = Map.empty, status = Some 404, body = ''404 page not found''\<rparr>"
proof -
  have hit: "go_map (URL_Path (get_request ''/go'')) = Some ''https://go.dev''"
    by (simp add: go_map_def get_request_def)
  have miss: "URL_Path (get_request ''/rust'') \<notin> dom go_map"
    by (simp add: go_map_def get_request_def)
  have served: "not_found_fallback ''404 page not found'' () (get_request ''/rust'') fresh ()
     = \<lparr>header = Map.empty, status = Some 404, body = ''404 page not found''\<rparr>"
    by (simp add: not_found_fallback_def fresh_def Write_def WriteHeader_def)
  note at_go = MapHandler_redirects_iff_key [of go_map "get_request ''/go''" "''https://go.dev''"
      "''404 page not found''" "()" location_redirect not_found_fallback fresh]
  note at_rust = MapHandler_redirects_iff_key [of go_map "get_request ''/rust''" "[]"
      "''404 page not found''" "()" location_redirect not_found_fallback fresh]
  from at_go hit have redirected:
    "MapHandler go_map ''404 page not found'' () (get_request ''/go'')
       = [HttpRedirect () (get_request ''/go'') ''https://go.dev'' 302]"
    by blast
  from at_rust miss have delegated:
    "MapHandler go_map ''404 page not found'' () (get_request ''/rust'')
       = [ServeHTTP ''404 page not found'' () (get_request ''/rust'')]"
    by blast
  from at_rust miss have
    "run location_redirect not_found_fallback
       (MapHandler go_map ''404 page not found'' () (get_request ''/rust'')) fresh
     = not_found_fallback ''404 page not found'' () (get_request ''/rust'') fresh"
    by blast
  with served have
    "run location_redirect not_found_fallback
       (MapHandler go_map ''404 page not found'' () (get_request ''/rust'')) fresh ()
     = \<lparr>header = Map.empty, status = Some 404, body = ''404 page not found''\<rparr>"
    by (simp only:)
  with redirected delegated show ?thesis
    by (intro conjI)
qed

subsection \<open>buildMap\<close>

lemma buildMap_loop_foldl:
  "buildMap_loop es m =
     foldl (\<lambda>mapping record. mapping(map_index record ''path'' \<mapsto> map_index record ''url''))
       m es"
  by (induction es arbitrary: m) simp_all

lemma buildMap_loop_append:
  "buildMap_loop (xs @ ys) m = buildMap_loop ys (buildMap_loop xs m)"
  by (induction xs arbitrary: m) simp_all

lemma buildMap_loop_other:
  "\<forall>y \<in> set ys. map_index y ''path'' \<noteq> p \<Longrightarrow> buildMap_loop ys m p = m p"
  by (induction ys arbitrary: m) auto

lemma buildMap_last_wins:
  assumes "\<forall>later \<in> set ys. map_index later ''path'' \<noteq> map_index e ''path''"
  shows "buildMap (xs @ e # ys) (map_index e ''path'') = Some (map_index e ''url'')"
proof -
  let ?m = "(buildMap_loop xs Map.empty)(map_index e ''path'' \<mapsto> map_index e ''url'')"
  have "buildMap (xs @ e # ys) = buildMap_loop ys ?m"
    by (simp add: buildMap_def buildMap_loop_append)
  moreover have "buildMap_loop ys ?m (map_index e ''path'') = ?m (map_index e ''path'')"
    using assms by (rule buildMap_loop_other)
  ultimately show ?thesis
    by simp
qed

lemma buildMap_dom: "dom (buildMap es) = (\<lambda>e. map_index e ''path'') ` set es"
proof -
  have "dom (buildMap_loop es m) = dom m \<union> (\<lambda>e. map_index e ''path'') ` set es" for m
    by (induction es arbitrary: m) auto
  then show ?thesis
    by (simp add: buildMap_def)
qed

text \<open>
  C3. The mapping \<open>buildMap\<close> builds from the decoded records is the fold that goes
  through them in document order and sets \<open>mapping[path] = url\<close>; so a record's url
  is the value at its path in the final mapping whenever no later record has the same
  path, whatever came before it (last write wins), and the two records
  \<open>{path: /a, url: X}\<close>, \<open>{path: /a, url: Y}\<close> give a mapping that takes \<open>/a\<close> to
  \<open>Y\<close>.
\<close>

theorem buildMap_is_fold_last_write_wins:
  "buildMap records = spec_fold records
   \<and> ((\<forall>later \<in> set ys. map_index later ''path'' \<noteq> map_index e ''path'') \<longrightarrow>
        buildMap (xs @ e # ys) (map_index e ''path'') = Some (map_index e ''url''))
   \<and> buildMap [yaml_record ''/a'' ''X'', yaml_record ''/a'' ''Y''] ''/a'' = Some ''Y''"
proof (intro conjI impI)
  show "buildMap records = spec_fold records"
    by (simp add: buildMap_def spec_fold_def buildMap_loop_foldl)
next
  assume "\<forall>later \<in> set ys. map_index later ''path'' \<noteq> map_index e ''path''"
  then show "buildMap (xs @ e # ys) (map_index e ''path'') = Some (map_index e ''url'')"
    by (rule buildMap_last_wins)
next
  show "buildMap [yaml_record ''/a'' ''X'', yaml_record ''/a'' ''Y''] ''/a'' = Some ''Y''"
    by (simp add: buildMap_def yaml_record_def map_index_def)
qed

theorem buildMap_is_fold_last_write_wins_witness:
  "buildMap [yaml_record ''/a'' ''X'', yaml_record ''/b'' ''Z'', yaml_record ''/a'' ''Y'',
             yaml_record ''/c'' ''W''] ''/a'' = Some ''Y''
   \<and> spec_fold [yaml_record ''/a'' ''X'', yaml_record ''/a'' ''Y''] ''/a'' = Some ''Y''"
proof -
  have path: "map_index (yaml_record p u) ''path'' = p" for p u
    by (simp add: yaml_record_def map_index_def)
  have url: "map_index (yaml_record p u) ''url'' = u" for p u
    by (simp add: yaml_record_def map_index_def)
  note general = buildMap_is_fold_last_write_wins
    [of "[yaml_record ''/a'' ''X'', yaml_record ''/a'' ''Y'']" "[yaml_record ''/c'' ''W'']"
      "yaml_record ''/a'' ''Y''" "[yaml_record ''/a'' ''X'', yaml_record ''/b'' ''Z'']"]
  have "\<forall>later \<in> set [yaml_record ''/c'' ''W''].
          map_index later ''path'' \<noteq> map_index (yaml_record ''/a'' ''Y'') ''path''"
    by (simp add: path)
  with general have
    "buildMap ([yaml_record ''/a'' ''X'', yaml_record ''/b'' ''Z''] @
               yaml_record ''/a'' ''Y'' # [yaml_record ''/c'' ''W''])
       (map_index (yaml_record ''/a'' ''Y'') ''path'') = Some (map_index (yaml_record ''/a'' ''Y'') ''url'')"
    by blast
  then have first: "buildMap [yaml_record ''/a'' ''X'', yaml_record ''/b'' ''Z'',
      yaml_record ''/a'' ''Y'', yaml_record ''/c'' ''W''] ''/a'' = Some ''Y''"
    by (simp add: path url)
  from general have same:
    "buildMap [yaml_record ''/a'' ''X'', yaml_record ''/a'' ''Y'']
       = spec_fold [yaml_record ''/a'' ''X'', yaml_record ''/a'' ''Y'']"
    by blast
  from general have
    "buildMap [yaml_record ''/a'' ''X'', yaml_record ''/a'' ''Y''] ''/a'' = Some ''Y''"
    by blast
  then have "spec_fold [yaml_record ''/a'' ''X'', yaml_record ''/a'' ''Y''] ''/a'' = Some ''Y''"
    unfolding same .
  with first show ?thesis
    by (intro conjI)
qed

subsection \<open>The YAML and JSON adapters\<close>

lemma parseYAML_result:
  "parseYAML U yaml = (case snd (U yaml []) of Some err \<Rightarrow> ([], Some err)
                                             | None \<Rightarrow> (fst (U yaml []), None))"
  by (simp add: parseYAML_def split: prod.splits option.splits)

lemma parseJSON_result:
  "parseJSON J jsonData = (case snd (J jsonData Map.empty) of Some err \<Rightarrow> (Map.empty, Some err)
                                             | None \<Rightarrow> (fst (J jsonData Map.empty), None))"
  by (simp add: parseJSON_def split: prod.splits option.splits)

lemma YAMLHandler_error:
  "snd (U yaml []) = Some err \<Longrightarrow> YAMLHandler U yaml F = (None, Some err)"
  by (simp add: YAMLHandler_def parseYAML_result)

lemma YAMLHandler_ok:
  "snd (U yaml []) = None \<Longrightarrow>
     YAMLHandler U yaml F = (Some (MapHandler (buildMap (fst (U yaml []))) F), None)"
  by (simp add: YAMLHandler_def parseYAML_result)

lemma JSONHandler_error:
  "snd (J jsonData Map.empty) = Some err \<Longrightarrow> JSONHandler J jsonData F = (None, Some err)"
  by (simp add: JSONHandler_def parseJSON_result)

lemma JSONHandler_ok:
  "snd (J jsonData Map.empty) = None \<Longrightarrow>
     JSONHandler J jsonData F = (Some (MapHandler (fst (J jsonData Map.empty)) F), None)"
  by (simp add: JSONHandler_def parseJSON_result)

text \<open>
  C4. When the decoder reports an error for the input, \<open>YAMLHandler\<close> and
  \<open>JSONHandler\<close> return that same error and a nil handler; they return a handler,
  and then a nil error with it, exactly when the decoder reports no error.
\<close>

theorem adapters_return_decode_error:
  fixes F :: 'h
  shows "(snd (U yaml []) = Some err \<longrightarrow>
        (YAMLHandler U yaml F :: ('w, 'h) built) = (None, Some err))
   \<and> (snd (J jsonData Map.empty) = Some err \<longrightarrow>
        (JSONHandler J jsonData F :: ('w, 'h) built) = (None, Some err))
   \<and> (fst (YAMLHandler U yaml F :: ('w, 'h) built) \<noteq> None \<longleftrightarrow> snd (U yaml []) = None)
   \<and> (snd (YAMLHandler U yaml F :: ('w, 'h) built) = None \<longleftrightarrow> snd (U yaml []) = None)
   \<and> (fst (JSONHandler J jsonData F :: ('w, 'h) built) \<noteq> None
        \<longleftrightarrow> snd (J jsonData Map.empty) = None)
   \<and> (snd (JSONHandler J jsonData F :: ('w, 'h) built) = None
        \<longleftrightarrow> snd (J jsonData Map.empty) = None)"
proof -
  have yaml: "(fst (YAMLHandler U yaml F :: ('w, 'h) built) \<noteq> None \<longleftrightarrow> snd (U yaml []) = None)
      \<and> (snd (YAMLHandler U yaml F :: ('w, 'h) built) = None \<longleftrightarrow> snd (U yaml []) = None)"
  proof (cases "snd (U yaml [])")
    case None
    then show ?thesis by (simp add: YAMLHandler_ok)
  next
    case (Some e)
    then show ?thesis by (simp add: YAMLHandler_error)
  qed
  have json: "(fst (JSONHandler J jsonData F :: ('w, 'h) built) \<noteq> None
        \<longleftrightarrow> snd (J jsonData Map.empty) = None)
      \<and> (snd (JSONHandler J jsonData F :: ('w, 'h) built) = None
        \<longleftrightarrow> snd (J jsonData Map.empty) = None)"
  proof (cases "snd (J jsonData Map.empty)")
    case None
    then show ?thesis by (simp add: JSONHandler_ok)
  next
    case (Some e)
    then show ?thesis by (simp add: JSONHandler_error)
  qed
  have "snd (U yaml []) = Some err \<longrightarrow>
      (YAMLHandler U yaml F :: ('w, 'h) built) = (None, Some err)"
    by (simp add: YAMLHandler_error)
  moreover have "snd (J jsonData Map.empty) = Some err \<longrightarrow>
      (JSONHandler J jsonData F :: ('w, 'h) built) = (None, Some err)"
    by (simp add: JSONHandler_error)
  ultimately show ?thesis
    using yaml json by blast
qed

theorem adapters_return_decode_error_witness:
  "YAMLHandler (\<lambda>yaml dst. (dst, Some (OtherError ''yaml: line 1: did not find expected key'')))
      [0x2D, 0x20, 0x7B] ''fallback''
     = (None :: (unit, string) HandlerFunc option,
        Some (OtherError ''yaml: line 1: did not find expected key''))
   \<and> JSONHandler (\<lambda>jsonData dst. (dst, Some (OtherError ''unexpected end of JSON input'')))
      [0x7B] ''fallback''
     = (None :: (unit, string) HandlerFunc option,
        Some (OtherError ''unexpected end of JSON input''))"
proof -
  have "snd ((\<lambda>yaml dst. (dst, Some (OtherError ''yaml: line 1: did not find expected key'')))
          ([0x2D, 0x20, 0x7B] :: bytes) ([] :: entry list))
        = Some (OtherError ''yaml: line 1: did not find expected key'')"
    by simp
  moreover have "snd ((\<lambda>jsonData dst. (dst, Some (OtherError ''unexpected end of JSON input'')))
          ([0x7B] :: bytes) (Map.empty :: string \<rightharpoonup> string))
        = Some (OtherError ''unexpected end of JSON input'')"
    by simp
  ultimately show ?thesis
    using adapters_return_decode_error
      [of "\<lambda>yaml dst. (dst, Some (OtherError ''yaml: line 1: did not find expected key''))"
        "[0x2D, 0x20, 0x7B]" "OtherError ''yaml: line 1: did not find expected key''"
        "''fallback''" "\<lambda>jsonData dst. (dst, Some (OtherError ''irrelevant''))" "[]",
        where ?'w = unit]
      adapters_return_decode_error
      [of "\<lambda>yaml dst. (dst, Some (OtherError ''irrelevant''))" "[]"
        "OtherError ''unexpected end of JSON input''" "''fallback''"
        "\<lambda>jsonData dst. (dst, Some (OtherError ''unexpected end of JSON input''))" "[0x7B]",
        where ?'w = unit]
    by blast
qed

lemma buildMap_single: "buildMap [yaml_record p u] = [p \<mapsto> u]"
  by (simp add: buildMap_def yaml_record_def map_index_def)

lemma MapHandler_single:
  "MapHandler [p \<mapsto> u] F w r =
     (if URL_Path r = p then [HttpRedirect w r u StatusFound] else [ServeHTTP F w r])"
  by (simp add: MapHandler_def)

text \<open>
  C8. When the JSON decoder yields the object \<open>{p: u}\<close> and the YAML decoder yields
  the one-record sequence \<open>[{path: p, url: u}]\<close>, both adapters return a handler,
  the two handlers make the same calls for every writer and request, and those calls
  are the redirect to \<open>u\<close> (status 302) for a request for \<open>p\<close> and the fallback's
  \<open>ServeHTTP\<close> for any other request.
\<close>

theorem json_yaml_handlers_equivalent:
  fixes F :: 'h
  assumes json: "J jsonData Map.empty = ([p \<mapsto> u], None)"
    and yaml: "U yamlData [] = ([yaml_record p u], None)"
  shows "\<exists>hj hy :: ('w, 'h) HandlerFunc.
      JSONHandler J jsonData F = (Some hj, None)
    \<and> YAMLHandler U yamlData F = (Some hy, None)
    \<and> hj = hy
    \<and> (\<forall>w r. hj w r = (if URL_Path r = p then [HttpRedirect w r u 302]
                       else [ServeHTTP F w r]))"
proof -
  let ?h = "MapHandler [p \<mapsto> u] F :: ('w, 'h) HandlerFunc"
  from json have "JSONHandler J jsonData F = (Some ?h, None)"
    by (simp add: JSONHandler_ok)
  moreover from yaml have "YAMLHandler U yamlData F = (Some ?h, None)"
    by (simp add: YAMLHandler_ok buildMap_single)
  moreover have "\<forall>w r. ?h w r = (if URL_Path r = p then [HttpRedirect w r u 302]
                       else [ServeHTTP F w r])"
    by (simp add: MapHandler_single StatusFound_def)
  ultimately show ?thesis
    by blast
qed

theorem json_yaml_handlers_equivalent_witness:
  "\<exists>hj hy :: (unit, string) HandlerFunc.
      JSONHandler (\<lambda>jsonData dst. ([''/a'' \<mapsto> ''X''], None)) [0x7B, 0x7D] ''fallback''
        = (Some hj, None)
    \<and> YAMLHandler (\<lambda>yamlData dst. ([yaml_record ''/a'' ''X''], None)) [0x2D, 0x20] ''fallback''
        = (Some hy, None)
    \<and> hj = hy
    \<and> hj () (get_request ''/a'') = [HttpRedirect () (get_request ''/a'') ''X'' 302]
    \<and> hy () (get_request ''/a'') = [HttpRedirect () (get_request ''/a'') ''X'' 302]
    \<and> hy () (get_request ''/other'') = [ServeHTTP ''fallback'' () (get_request ''/other'')]"
proof -
  note general = json_yaml_handlers_equivalent
    [where J = "\<lambda>jsonData dst. ([''/a'' \<mapsto> ''X''], None)" and jsonData = "[0x7B, 0x7D]"
      and U = "\<lambda>yamlData dst. ([yaml_record ''/a'' ''X''], None)" and yamlData = "[0x2D, 0x20]"
      and p = "''/a''" and u = "''X''" and F = "''fallback''" and ?'w = unit]
  from general
  obtain hj hy :: "(unit, string) HandlerFunc" where
    built: "JSONHandler (\<lambda>jsonData dst. ([''/a'' \<mapsto> ''X''], None)) [0x7B, 0x7D] ''fallback''
        = (Some hj, None)"
      "YAMLHandler (\<lambda>yamlData dst. ([yaml_record ''/a'' ''X''], None)) [0x2D, 0x20] ''fallback''
        = (Some hy, None)"
    and same: "hj = hy"
    and calls: "\<And>w r. hj w r = (if URL_Path r = ''/a'' then [HttpRedirect w r ''X'' 302]
                       else [ServeHTTP ''fallback'' w r])"
    by blast
  have "hj () (get_request ''/a'') = [HttpRedirect () (get_request ''/a'') ''X'' 302]"
    by (simp add: calls get_request_def)
  moreover have "hy () (get_request ''/a'') = [HttpRedirect () (get_request ''/a'') ''X'' 302]"
    by (simp add: same [symmetric] calls get_request_def)
  moreover have
    "hy () (get_request ''/other'') = [ServeHTTP ''fallback'' () (get_request ''/other'')]"
    by (simp add: same [symmetric] calls get_request_def)
  ultimately show ?thesis
    using built same by blast
qed

text \<open>
  C9. A record that lacks the \<open>path\<close> or the \<open>url\<close> field is read with the empty
  string in its place and merged like any other record, and the adapter returns a
  handler with a nil error: a record without \<open>path\<close> makes the empty string a key
  of the mapping, and, when no later record reads the empty path too, a request whose
  path is empty is redirected to that record's url; a record without \<open>url\<close> maps its
  path to the empty string.
\<close>

theorem missing_field_is_empty_string:
  fixes F :: 'h and w :: 'w
  shows "(''path'' \<notin> dom e \<longrightarrow> map_index e ''path'' = [])
   \<and> (''url'' \<notin> dom e \<longrightarrow> map_index e ''url'' = [])
   \<and> (''path'' \<notin> dom e \<and> e \<in> set es \<longrightarrow> [] \<in> dom (buildMap es))
   \<and> (''path'' \<notin> dom e \<and> (\<forall>later \<in> set ys. map_index later ''path'' \<noteq> []) \<longrightarrow>
        buildMap (xs @ e # ys) [] = Some (map_index e ''url'')
        \<and> (URL_Path r = [] \<longrightarrow>
             MapHandler (buildMap (xs @ e # ys)) F w r
               = [HttpRedirect w r (map_index e ''url'') 302]))
   \<and> (''url'' \<notin> dom e
        \<and> (\<forall>later \<in> set ys. map_index later ''path'' \<noteq> map_index e ''path'') \<longrightarrow>
        buildMap (xs @ e # ys) (map_index e ''path'') = Some [])
   \<and> (U yaml [] = (es, None) \<longrightarrow>
        (YAMLHandler U yaml F :: ('w, 'h) built) = (Some (MapHandler (buildMap es) F), None))"
proof (intro conjI impI)
  show "map_index e ''path'' = []" if "''path'' \<notin> dom e"
    using that by (simp add: map_index_def dom_def)
  show "map_index e ''url'' = []" if "''url'' \<notin> dom e"
    using that by (simp add: map_index_def dom_def)
  show "[] \<in> dom (buildMap es)" if "''path'' \<notin> dom e \<and> e \<in> set es"
  proof -
    from that have "map_index e ''path'' = []"
      by (simp add: map_index_def dom_def)
    with that show ?thesis
      unfolding buildMap_dom by force
  qed
  show "buildMap (xs @ e # ys) (map_index e ''path'') = Some []"
    if "''url'' \<notin> dom e \<and> (\<forall>later \<in> set ys. map_index later ''path'' \<noteq> map_index e ''path'')"
  proof -
    from that have "map_index e ''url'' = []"
      by (simp add: map_index_def dom_def)
    moreover from that
    have "buildMap (xs @ e # ys) (map_index e ''path'') = Some (map_index e ''url'')"
      by (intro buildMap_last_wins) blast
    ultimately show ?thesis
      by simp
  qed
  show "(YAMLHandler U yaml F :: ('w, 'h) built) = (Some (MapHandler (buildMap es) F), None)"
    if "U yaml [] = (es, None)"
    using that by (simp add: YAMLHandler_ok)
next
  assume missing: "''path'' \<notin> dom e \<and> (\<forall>later \<in> set ys. map_index later ''path'' \<noteq> [])"
  then have empty: "map_index e ''path'' = []"
    by (simp add: map_index_def dom_def)
  from missing have "\<forall>later \<in> set ys. map_index later ''path'' \<noteq> map_index e ''path''"
    unfolding empty by blast
  then have "buildMap (xs @ e # ys) (map_index e ''path'') = Some (map_index e ''url'')"
    by (rule buildMap_last_wins)
  then show merged: "buildMap (xs @ e # ys) [] = Some (map_index e ''url'')"
    unfolding empty .
  show "MapHandler (buildMap (xs @ e # ys)) F w r = [HttpRedirect w r (map_index e ''url'') 302]"
    if "URL_Path r = []"
    using that merged by (simp add: MapHandler_hit StatusFound_def)
qed

theorem missing_field_is_empty_string_witness:
  "map_index [''url'' \<mapsto> ''https://example.com''] ''path'' = []
   \<and> buildMap [yaml_record ''/a'' ''X'', [''url'' \<mapsto> ''https://example.com'']] []
       = Some ''https://example.com''
   \<and> MapHandler (buildMap [yaml_record ''/a'' ''X'', [''url'' \<mapsto> ''https://example.com'']])
         ''fallback'' () (get_request [])
       = [HttpRedirect () (get_request []) ''https://example.com'' 302]
   \<and> buildMap [[''path'' \<mapsto> ''/p'']] ''/p'' = Some []"
proof -
  let ?e = "[''url'' \<mapsto> ''https://example.com''] :: entry"
  let ?f = "[''path'' \<mapsto> ''/p''] :: entry"
  note no_path = missing_field_is_empty_string
    [where e = ?e and xs = "[yaml_record ''/a'' ''X'']" and ys = "[]" and es = "[]"
      and r = "get_request []" and F = "''fallback''" and w = "()"
      and U = "\<lambda>yaml dst. ([], None)" and yaml = "[]"]
  note no_url = missing_field_is_empty_string
    [where e = ?f and xs = "[]" and ys = "[]" and es = "[]"
      and r = "get_request []" and F = "''fallback''" and w = "()"
      and U = "\<lambda>yaml dst. ([], None)" and yaml = "[]"]
  have lacks_path: "''path'' \<notin> dom ?e"
    by simp
  have lacks_url: "''url'' \<notin> dom ?f"
    by simp
  have url: "map_index ?e ''url'' = ''https://example.com''"
    by (simp add: map_index_def)
  have path: "map_index ?f ''path'' = ''/p''"
    by (simp add: map_index_def)
  have empty_path: "URL_Path (get_request []) = []"
    by (simp add: get_request_def)
  from no_path lacks_path have a: "map_index ?e ''path'' = []"
    by blast
  from no_path lacks_path have
    "buildMap ([yaml_record ''/a'' ''X''] @ ?e # []) [] = Some (map_index ?e ''url'')"
    by simp
  then have b: "buildMap [yaml_record ''/a'' ''X'', ?e] [] = Some ''https://example.com''"
    by (simp add: url)
  from no_path lacks_path empty_path have
    "MapHandler (buildMap ([yaml_record ''/a'' ''X''] @ ?e # [])) ''fallback'' () (get_request [])
       = [HttpRedirect () (get_request []) (map_index ?e ''url'') 302]"
    by simp
  then have c: "MapHandler (buildMap [yaml_record ''/a'' ''X'', ?e]) ''fallback'' () (get_request [])
       = [HttpRedirect () (get_request []) ''https://example.com'' 302]"
    by (simp add: url)
  from no_url lacks_url have
    "buildMap ([] @ ?f # []) (map_index ?f ''path'') = Some []"
    by simp
  then have d: "buildMap [?f] ''/p'' = Some []"
    by (simp add: path)
  from a b c d show ?thesis
    by (intro conjI)
qed

subsection \<open>DBHandler\<close>

lemma DBHandler_func_found:
  "Where_First db \<lparr>Shortpath = URL_Path r, URL = []\<rparr> = (row, None) \<Longrightarrow>
     DBHandler_func db F w r = [HttpRedirect w r (URL row) StatusMovedPermanently]"
  by (simp add: DBHandler_func_def)

lemma DBHandler_func_not_found:
  "snd (Where_First db \<lparr>Shortpath = URL_Path r, URL = []\<rparr>) = Some ErrRecordNotFound \<Longrightarrow>
     DBHandler_func db F w r = [ServeHTTP F w r]"
  by (cases "Where_First db \<lparr>Shortpath = URL_Path r, URL = []\<rparr>")
    (simp add: DBHandler_func_def)

lemma DBHandler_func_error:
  "snd (Where_First db \<lparr>Shortpath = URL_Path r, URL = []\<rparr>) = Some err \<Longrightarrow>
   err \<noteq> ErrRecordNotFound \<Longrightarrow>
     DBHandler_func db F w r = [Fprintf w (''Unexpected error: '' @ Error err)]"
  by (cases "Where_First db \<lparr>Shortpath = URL_Path r, URL = []\<rparr>")
    (simp add: DBHandler_func_def)

lemma DBHandler_built: "snd (DBHandler db F) = (Some (DBHandler_func db F), None)"
  by (simp add: DBHandler_def)

lemma table_db_query:
  "Where_First (table_db rows) q =
     (case find (\<lambda>row. Shortpath row = Shortpath q) rows of
        Some row \<Rightarrow> (row, None)
      | None \<Rightarrow> (\<lparr>Shortpath = [], URL = []\<rparr>, Some ErrRecordNotFound))"
  by (simp add: table_db_def)







text \<open>
  C7. When \<open>db.AutoMigrate\<close> reports an error, \<open>DBHandler\<close> logs it with
  \<open>log.Println("Gorm error: ", err)\<close> and still returns a handler and a nil error;
  the handler is the one it returns when the migration succeeds.
\<close>

theorem DBHandler_migration_failure_logged:
  fixes F :: 'h
  assumes "AutoMigrate_Error db = Some err"
  shows "(DBHandler db F :: log_call list \<times> ('w, 'h) built)
      = ([log_Println [''Gorm error: '', Error err]], Some (DBHandler_func db F), None)
   \<and> (DBHandler_func db F :: ('w, 'h) HandlerFunc)
      = DBHandler_func (db\<lparr>AutoMigrate_Error := None\<rparr>) F
   \<and> snd (DBHandler db F :: log_call list \<times> ('w, 'h) built)
      = snd (DBHandler (db\<lparr>AutoMigrate_Error := None\<rparr>) F)"
proof -
  have same: "(DBHandler_func db F :: ('w, 'h) HandlerFunc)
      = DBHandler_func (db\<lparr>AutoMigrate_Error := None\<rparr>) F"
    by (simp add: DBHandler_func_def)
  from assms have "(DBHandler db F :: log_call list \<times> ('w, 'h) built)
      = ([log_Println [''Gorm error: '', Error err]], Some (DBHandler_func db F), None)"
    by (simp add: DBHandler_def)
  moreover have "snd (DBHandler db F :: log_call list \<times> ('w, 'h) built)
      = snd (DBHandler (db\<lparr>AutoMigrate_Error := None\<rparr>) F)"
    unfolding DBHandler_built same ..
  ultimately show ?thesis
    using same by blast
qed

theorem DBHandler_migration_failure_logged_witness:
  "(DBHandler broken_db ''fallback'' :: log_call list \<times> (unit, string) built)
     = ([log_Println [''Gorm error: '', ''unable to open database file'']],
        Some (DBHandler_func broken_db ''fallback''), None)"
proof -
  have "AutoMigrate_Error broken_db = Some (OtherError ''unable to open database file'')"
    by (simp add: broken_db_def)
  from DBHandler_migration_failure_logged [OF this, of "''fallback''", where ?'w = unit]
  show ?thesis
    by simp
qed

text \<open>
  C10. \<open>DBHandler\<close> returns a handler and a nil error for every database handle and
  fallback, whatever \<open>db.AutoMigrate\<close> reported; \<open>YAMLHandler\<close> and \<open>JSONHandler\<close>,
  in contrast, return the decoder's error and no handler.
\<close>

theorem DBHandler_never_returns_error:
  fixes F :: 'h
  shows "snd (snd (DBHandler db F :: log_call list \<times> ('w, 'h) built)) = None
   \<and> fst (snd (DBHandler db F :: log_call list \<times> ('w, 'h) built)) = Some (DBHandler_func db F)
   \<and> snd (DBHandler (db\<lparr>AutoMigrate_Error := Some err\<rparr>) F :: log_call list \<times> ('w, 'h) built)
       = (Some (DBHandler_func (db\<lparr>AutoMigrate_Error := Some err\<rparr>) F), None)
   \<and> (YAMLHandler (\<lambda>yaml dst. (dst, Some err)) yaml F :: ('w, 'h) built) = (None, Some err)
   \<and> (JSONHandler (\<lambda>jsonData dst. (dst, Some err)) jsonData F :: ('w, 'h) built)
       = (None, Some err)"
  by (simp add: DBHandler_built YAMLHandler_error JSONHandler_error)

subsection \<open>Redirect or delegate\<close>

lemma MapHandler_redirects_or_delegates:
  "redirects_or_delegates F w r (MapHandler M F w r)"
  by (cases "M (URL_Path r)") (simp_all add: MapHandler_def)

lemma YAMLHandler_Some:
  "YAMLHandler U yaml F = (Some h, e) \<Longrightarrow> \<exists>M. h = MapHandler M F"
  by (cases "snd (U yaml [])") (auto simp: YAMLHandler_ok YAMLHandler_error)

lemma JSONHandler_Some:
  "JSONHandler J jsonData F = (Some h, e) \<Longrightarrow> \<exists>M. h = MapHandler M F"
  by (cases "snd (J jsonData Map.empty)") (auto simp: JSONHandler_ok JSONHandler_error)

text \<open>
  C5, as the claim states it, fails: the database-backed handler, asked for \<open>/b\<close> on
  a handle whose query fails with a connection error, neither redirects nor calls its
  fallback; it writes the error into the response.
\<close>

theorem DBHandler_neither_redirects_nor_delegates:
  "fst (snd (DBHandler broken_db ''fallback'' :: log_call list \<times> (unit, string) built))
     = Some (DBHandler_func broken_db ''fallback'')
   \<and> DBHandler_func broken_db ''fallback'' () (get_request ''/b'')
     = [Fprintf () ''Unexpected error: connection refused'']
   \<and> \<not> redirects_or_delegates ''fallback'' () (get_request ''/b'')
         (DBHandler_func broken_db ''fallback'' () (get_request ''/b''))"
proof -
  have "snd (Where_First broken_db \<lparr>Shortpath = URL_Path (get_request ''/b''), URL = []\<rparr>)
      = Some (OtherError ''connection refused'')"
    by (simp add: broken_db_def)
  then have "DBHandler_func broken_db ''fallback'' () (get_request ''/b'')
     = [Fprintf () (''Unexpected error: '' @ Error (OtherError ''connection refused''))]"
    by (rule DBHandler_func_error) simp
  then show ?thesis
    by (simp add: DBHandler_built)
qed

text \<open>
  C5, amended. Every handler built by \<open>MapHandler\<close>, \<open>YAMLHandler\<close> or
  \<open>JSONHandler\<close> answers every request with a redirect or by calling its fallback,
  and so does the handler built by \<open>DBHandler\<close> whenever its query succeeds or
  reports \<open>gorm.ErrRecordNotFound\<close>. A miss (the path is no key, the query reports
  not found) always goes to the fallback. The one other answer is the database-backed
  handler's diagnostic for a query that failed otherwise; no handler writes a
  not-found response of its own.
\<close>

theorem handlers_redirect_or_delegate:
  fixes F :: 'h and w :: 'w
  shows "redirects_or_delegates F w r (MapHandler M F w r)
   \<and> (YAMLHandler U yaml F = (Some hy, ey) \<longrightarrow> redirects_or_delegates F w r (hy w r))
   \<and> (JSONHandler J jsonData F = (Some hj, ej) \<longrightarrow> redirects_or_delegates F w r (hj w r))
   \<and> (snd (Where_First db \<lparr>Shortpath = URL_Path r, URL = []\<rparr>) = None
        \<or> snd (Where_First db \<lparr>Shortpath = URL_Path r, URL = []\<rparr>) = Some ErrRecordNotFound \<longrightarrow>
        redirects_or_delegates F w r (DBHandler_func db F w r))
   \<and> (M (URL_Path r) = None \<longrightarrow> MapHandler M F w r = [ServeHTTP F w r])
   \<and> (snd (Where_First db \<lparr>Shortpath = URL_Path r, URL = []\<rparr>) = Some ErrRecordNotFound \<longrightarrow>
        DBHandler_func db F w r = [ServeHTTP F w r])
   \<and> (snd (Where_First db \<lparr>Shortpath = URL_Path r, URL = []\<rparr>) = Some err
        \<and> err \<noteq> ErrRecordNotFound \<longrightarrow>
        DBHandler_func db F w r = [Fprintf w (''Unexpected error: '' @ Error err)])"
proof (intro conjI impI)
  show "redirects_or_delegates F w r (MapHandler M F w r)"
    by (rule MapHandler_redirects_or_delegates)
  show "redirects_or_delegates F w r (hy w r)" if "YAMLHandler U yaml F = (Some hy, ey)"
    using YAMLHandler_Some [OF that] by (auto simp: MapHandler_redirects_or_delegates)
  show "redirects_or_delegates F w r (hj w r)" if "JSONHandler J jsonData F = (Some hj, ej)"
    using JSONHandler_Some [OF that] by (auto simp: MapHandler_redirects_or_delegates)
  show "MapHandler M F w r = [ServeHTTP F w r]" if "M (URL_Path r) = None"
    using that by (rule MapHandler_miss)
  show "DBHandler_func db F w r = [ServeHTTP F w r]"
    if "snd (Where_First db \<lparr>Shortpath = URL_Path r, URL = []\<rparr>) = Some ErrRecordNotFound"
    using that by (rule DBHandler_func_not_found)
  show "DBHandler_func db F w r = [Fprintf w (''Unexpected error: '' @ Error err)]"
    if "snd (Where_First db \<lparr>Shortpath = URL_Path r, URL = []\<rparr>) = Some err
        \<and> err \<noteq> ErrRecordNotFound"
    using that by (simp add: DBHandler_func_error)
next
  assume "snd (Where_First db \<lparr>Shortpath = URL_Path r, URL = []\<rparr>) = None
        \<or> snd (Where_First db \<lparr>Shortpath = URL_Path r, URL = []\<rparr>) = Some ErrRecordNotFound"
  then show "redirects_or_delegates F w r (DBHandler_func db F w r)"
  proof
    assume "snd (Where_First db \<lparr>Shortpath = URL_Path r, URL = []\<rparr>) = None"
    then have "Where_First db \<lparr>Shortpath = URL_Path r, URL = []\<rparr>
        = (fst (Where_First db \<lparr>Shortpath = URL_Path r, URL = []\<rparr>), None)"
      by (simp add: prod_eq_iff)
    then show ?thesis
      by (simp add: DBHandler_func_found)
  next
    assume "snd (Where_First db \<lparr>Shortpath = URL_Path r, URL = []\<rparr>) = Some ErrRecordNotFound"
    then show ?thesis
      by (simp add: DBHandler_func_not_found)
  qed
qed

theorem handlers_redirect_or_delegate_witness:
  "redirects_or_delegates ''fallback'' () (get_request ''/go'')
     (MapHandler go_map ''fallback'' () (get_request ''/go''))
   \<and> MapHandler go_map ''fallback'' () (get_request ''/rust'')
     = [ServeHTTP ''fallback'' () (get_request ''/rust'')]
   \<and> redirects_or_delegates ''fallback'' () (get_request ''/missing'')
     (DBHandler_func (table_db [\<lparr>Shortpath = ''/b'', URL = ''Z''\<rparr>]) ''fallback'' ()
        (get_request ''/missing''))
   \<and> DBHandler_func (table_db [\<lparr>Shortpath = ''/b'', URL = ''Z''\<rparr>]) ''fallback'' ()
        (get_request ''/missing'')
     = [ServeHTTP ''fallback'' () (get_request ''/missing'')]
   \<and> DBHandler_func broken_db ''fallback'' () (get_request ''/missing'')
     = [Fprintf () ''Unexpected error: connection refused'']"
proof -
  let ?db = "table_db [\<lparr>Shortpath = ''/b'', URL = ''Z''\<rparr>]"
  note at_go = handlers_redirect_or_delegate
    [where F = "''fallback''" and w = "()" and r = "get_request ''/go''" and M = go_map
      and U = "\<lambda>yaml dst. ([], None)" and yaml = "[]" and hy = "MapHandler Map.empty ''fallback''"
      and ey = None and J = "\<lambda>jsonData dst. (Map.empty, None)" and jsonData = "[]"
      and hj = "MapHandler Map.empty ''fallback''" and ej = None and db = ?db
      and err = "OtherError ''connection refused''"]
  note at_rust = handlers_redirect_or_delegate
    [where F = "''fallback''" and w = "()" and r = "get_request ''/rust''" and M = go_map
      and U = "\<lambda>yaml dst. ([], None)" and yaml = "[]" and hy = "MapHandler Map.empty ''fallback''"
      and ey = None and J = "\<lambda>jsonData dst. (Map.empty, None)" and jsonData = "[]"
      and hj = "MapHandler Map.empty ''fallback''" and ej = None and db = ?db
      and err = "OtherError ''connection refused''"]
  note at_missing = handlers_redirect_or_delegate
    [where F = "''fallback''" and w = "()" and r = "get_request ''/missing''" and M = go_map
      and U = "\<lambda>yaml dst. ([], None)" and yaml = "[]" and hy = "MapHandler Map.empty ''fallback''"
      and ey = None and J = "\<lambda>jsonData dst. (Map.empty, None)" and jsonData = "[]"
      and hj = "MapHandler Map.empty ''fallback''" and ej = None and db = ?db
      and err = "OtherError ''connection refused''"]
  note at_broken = handlers_redirect_or_delegate
    [where F = "''fallback''" and w = "()" and r = "get_request ''/missing''" and M = go_map
      and U = "\<lambda>yaml dst. ([], None)" and yaml = "[]" and hy = "MapHandler Map.empty ''fallback''"
      and ey = None and J = "\<lambda>jsonData dst. (Map.empty, None)" and jsonData = "[]"
      and hj = "MapHandler Map.empty ''fallback''" and ej = None and db = broken_db
      and err = "OtherError ''connection refused''"]
  have miss: "go_map (URL_Path (get_request ''/rust'')) = None"
    by (simp add: go_map_def get_request_def)
  have not_found:
    "snd (Where_First ?db \<lparr>Shortpath = URL_Path (get_request ''/missing''), URL = []\<rparr>)
       = Some ErrRecordNotFound"
    by (simp add: table_db_query get_request_def)
  have failed:
    "snd (Where_First broken_db \<lparr>Shortpath = URL_Path (get_request ''/missing''), URL = []\<rparr>)
       = Some (OtherError ''connection refused'')
     \<and> OtherError ''connection refused'' \<noteq> ErrRecordNotFound"
    by (simp add: broken_db_def)
  from at_go have a: "redirects_or_delegates ''fallback'' () (get_request ''/go'')
     (MapHandler go_map ''fallback'' () (get_request ''/go''))"
    by blast
  from at_rust miss have b: "MapHandler go_map ''fallback'' () (get_request ''/rust'')
     = [ServeHTTP ''fallback'' () (get_request ''/rust'')]"
    by blast
  from at_missing not_found have c: "redirects_or_delegates ''fallback'' () (get_request ''/missing'')
     (DBHandler_func ?db ''fallback'' () (get_request ''/missing''))"
    by blast
  from at_missing not_found have d: "DBHandler_func ?db ''fallback'' () (get_request ''/missing'')
     = [ServeHTTP ''fallback'' () (get_request ''/missing'')]"
    by blast
  from at_broken failed have "DBHandler_func broken_db ''fallback'' () (get_request ''/missing'')
     = [Fprintf () (''Unexpected error: '' @ Error (OtherError ''connection refused''))]"
    by blast
  then have e: "DBHandler_func broken_db ''fallback'' () (get_request ''/missing'')
     = [Fprintf () ''Unexpected error: connection refused'']"
    by simp
  from a b c d e show ?thesis
    by (intro conjI)
qed

end
